theory Spec2Isabelle
  imports Main "HOL-Library.Monad_Syntax" "HOL-Library.Multiset"
begin

section \<open>Data model\<close>

text \<open>
  \<^verbatim>\<open>app/schemas/assessment.py\<close>, class \<^verbatim>\<open>AssessmentAnswers\<close>. The enumerated fields are
  Python strings (the \<^verbatim>\<open>Literal\<close> vocabularies are checked by the schema, not by the
  scoring module), the two multi-valued fields are \<^verbatim>\<open>list[str]\<close>, which keep order and
  duplicates.
\<close>

record AssessmentAnswers =
  data_types :: "string list"
  data_types_unknown :: bool
  storage_location :: string
  data_region :: string
  subprocessors_disclosed :: string
  retention_policy_stated :: string
  deletion_process :: string
  sso_supported :: string
  mfa_available :: string
  rbac_available :: string
  encryption_transit :: string
  encryption_rest :: string
  audit_logs_available :: string
  third_party_sharing :: string
  used_for_advertising :: string
  used_for_ai_training :: string
  data_sold :: string
  integration_types :: "string list"
  integration_method :: string
  integration_frequency :: string
  sis_writeback :: string

text \<open>\<^verbatim>\<open>app/services/scoring.py\<close>, dataclasses \<^verbatim>\<open>ReasonCode\<close> and \<^verbatim>\<open>ScoreResult\<close>.
  Python's unbounded \<^verbatim>\<open>int\<close> is \<^typ>\<open>int\<close>; the \<^verbatim>\<open>breakdown\<close> dict is the association
  list of its literal, in insertion order. The field \<^verbatim>\<open>total\<close> is named
  \<open>total_score\<close> here (\<open>total\<close> is a constant of HOL).\<close>

record ReasonCode =
  code :: string
  explanation :: string
  category :: string
  points :: int

record ScoreResult =
  total_score :: int
  breakdown :: "(string \<times> int) list"
  reason_codes :: "ReasonCode list"
  risk_tier :: string

section \<open>Dictionaries\<close>

text \<open>A dict literal is an association list. \<^verbatim>\<open>d[k]\<close> raises \<^verbatim>\<open>KeyError\<close> on a missing
  key: the result \<open>None\<close> stands for that exception, and it propagates through every
  caller below. \<^verbatim>\<open>d.get(k, default)\<close> never raises.\<close>

definition getitem :: "('k \<times> 'v) list \<Rightarrow> 'k \<Rightarrow> 'v option" where
  "getitem d k = map_of d k"

definition dict_get :: "('k \<times> 'v) list \<Rightarrow> 'k \<Rightarrow> 'v \<Rightarrow> 'v" where
  "dict_get d k dflt = (case map_of d k of None \<Rightarrow> dflt | Some v \<Rightarrow> v)"

definition DATA_TYPE_POINTS :: "(string \<times> int) list" where
  "DATA_TYPE_POINTS =
    [(''iep_504'', 8),
     (''health'', 8),
     (''behavioral_sel'', 7),
     (''biometrics'', 8),
     (''precise_location'', 7),
     (''discipline'', 6),
     (''photos_video_audio'', 4),
     (''staff_notes'', 4),
     (''academic_records'', 3),
     (''attendance_discipline'', 3),
     (''directory_info'', 2),
     (''contact_info'', 2),
     (''auth_identifiers'', 1),
     (''device_identifiers'', 1)]"

definition REASON_TEMPLATES :: "(string \<times> string) list" where
  "REASON_TEMPLATES =
    [(''SENS-IEP'', ''System handles IEP/504 data, which is highly sensitive under FERPA and IDEA.''),
     (''SENS-HEALTH'', ''System collects health data, protected under FERPA and potentially HIPAA.''),
     (''SENS-BEHAV'', ''System stores behavioral/SEL data, which can be stigmatizing if mishandled.''),
     (''SENS-BIO'', ''System uses biometric data, requiring special consent and protections.''),
     (''SENS-LOC'', ''System tracks precise student location, raising significant privacy concerns.''),
     (''SENS-DISC'', ''System contains discipline records, which are sensitive under FERPA.''),
     (''SENS-MEDIA'', ''System stores student photos, video, or audio recordings.''),
     (''SENS-UNK'', ''Data types collected are unknown, adding uncertainty to risk assessment.''),
     (''EXPO-SHARE'', ''Vendor indicates data is shared with third parties.''),
     (''EXPO-ADS'', ''Data may be used for advertising or marketing purposes.''),
     (''EXPO-AI'', ''Data may be used to train AI models.''),
     (''EXPO-SOLD'', ''Vendor indicates data may be sold or monetized.''),
     (''EXPO-SUBP'', ''Subprocessors are not disclosed, creating unknown exposure.''),
     (''EXPO-GLOBAL'', ''Data may be stored or processed outside the US.''),
     (''EXPO-BOTH'', ''Data stored in both vendor cloud and district systems increases exposure.''),
     (''CTRL-NOSSO'', ''SSO is not supported or status is unknown.''),
     (''CTRL-NOMFA'', ''Admin MFA is not available or unknown.''),
     (''CTRL-NORBAC'', ''Role-based access controls are not available or unknown.''),
     (''CTRL-NOTRANS'', ''Encryption in transit is not confirmed.''),
     (''CTRL-NOREST'', ''Encryption at rest is not confirmed.''),
     (''CTRL-NOAUDIT'', ''Audit logs are not available or unknown.''),
     (''POST-RETUNK'', ''Retention policy is missing or unknown.''),
     (''POST-DELUNK'', ''Data deletion process is unclear or requires manual support.''),
     (''POST-NODEL'', ''No clear process exists for data deletion.''),
     (''INT-APIKEY'', ''Integration uses API keys, increasing blast radius if exposed.''),
     (''INT-REALTIME'', ''Real-time data sync increases potential impact of breaches.''),
     (''INT-SISWB'', ''System writes data back to SIS, amplifying integration risk.''),
     (''INT-MULTI'', ''Multiple integration types increase attack surface.'')]"

text \<open>\<^verbatim>\<open>ReasonCode(c, REASON_TEMPLATES[c], cat, pts)\<close>: the template lookup is the one
  place of the module that can raise.\<close>

definition new_reason :: "string \<Rightarrow> string \<Rightarrow> int \<Rightarrow> ReasonCode option" where
  "new_reason c cat pts = do {
     e \<leftarrow> getitem REASON_TEMPLATES c;
     Some \<lparr>code = c, explanation = e, category = cat, points = pts\<rparr>
   }"

section \<open>Sensitivity\<close>

text \<open>The body of the loop \<^verbatim>\<open>for data_type in answers.data_types\<close> on the running
  \<^verbatim>\<open>(score, reasons)\<close>; the source's local \<^verbatim>\<open>points\<close> is \<open>pts\<close>.\<close>

definition sens_body :: "string \<Rightarrow> int \<times> ReasonCode list \<Rightarrow> (int \<times> ReasonCode list) option" where
  "sens_body data_type = (\<lambda>(score, reasons).
     let pts = dict_get DATA_TYPE_POINTS data_type 0;
         score = score + pts
     in if data_type = ''iep_504'' then
          do { r \<leftarrow> new_reason ''SENS-IEP'' ''sensitivity'' pts; Some (score, reasons @ [r]) }
        else if data_type = ''health'' then
          do { r \<leftarrow> new_reason ''SENS-HEALTH'' ''sensitivity'' pts; Some (score, reasons @ [r]) }
        else if data_type = ''behavioral_sel'' then
          do { r \<leftarrow> new_reason ''SENS-BEHAV'' ''sensitivity'' pts; Some (score, reasons @ [r]) }
        else if data_type = ''biometrics'' then
          do { r \<leftarrow> new_reason ''SENS-BIO'' ''sensitivity'' pts; Some (score, reasons @ [r]) }
        else if data_type = ''precise_location'' then
          do { r \<leftarrow> new_reason ''SENS-LOC'' ''sensitivity'' pts; Some (score, reasons @ [r]) }
        else if data_type = ''discipline'' \<or> data_type = ''attendance_discipline'' then
          do { r \<leftarrow> new_reason ''SENS-DISC'' ''sensitivity'' pts; Some (score, reasons @ [r]) }
        else if data_type = ''photos_video_audio'' then
          do { r \<leftarrow> new_reason ''SENS-MEDIA'' ''sensitivity'' pts; Some (score, reasons @ [r]) }
        else Some (score, reasons))"

fun sens_loop :: "string list \<Rightarrow> int \<times> ReasonCode list \<Rightarrow> (int \<times> ReasonCode list) option" where
  "sens_loop [] st = Some st"
| "sens_loop (data_type # rest) st = do { st' \<leftarrow> sens_body data_type st; sens_loop rest st' }"

definition calculate_sensitivity_score :: "AssessmentAnswers \<Rightarrow> (int \<times> ReasonCode list) option" where
  "calculate_sensitivity_score answers =
     (let score = 0; reasons = [] in
      if data_types_unknown answers then
        do {
          let score = score + 10;
          r \<leftarrow> new_reason ''SENS-UNK'' ''sensitivity'' 10;
          let reasons = reasons @ [r];
          Some (min score 30, reasons)
        }
      else
        do {
          (score, reasons) \<leftarrow> sens_loop (data_types answers) (score, reasons);
          Some (min score 30, reasons)
        })"

section \<open>Exposure\<close>

text \<open>\<^verbatim>\<open>calculate_exposure_score\<close> runs seven \<^verbatim>\<open>if\<close>/\<^verbatim>\<open>elif\<close> blocks in sequence on the
  running \<^verbatim>\<open>(score, reasons)\<close>; each block is one definition, named after the field it
  reads, in the order of the source.\<close>

definition expo_third_party_sharing :: "AssessmentAnswers \<Rightarrow> int \<times> ReasonCode list \<Rightarrow> (int \<times> ReasonCode list) option" where
  "expo_third_party_sharing answers = (\<lambda>(score, reasons).
     if third_party_sharing answers = ''yes'' then
       do { r \<leftarrow> new_reason ''EXPO-SHARE'' ''exposure'' 6; Some (score + 6, reasons @ [r]) }
     else if third_party_sharing answers = ''unknown'' then Some (score + 4, reasons)
     else Some (score, reasons))"

definition expo_used_for_advertising :: "AssessmentAnswers \<Rightarrow> int \<times> ReasonCode list \<Rightarrow> (int \<times> ReasonCode list) option" where
  "expo_used_for_advertising answers = (\<lambda>(score, reasons).
     if used_for_advertising answers = ''yes'' then
       do { r \<leftarrow> new_reason ''EXPO-ADS'' ''exposure'' 5; Some (score + 5, reasons @ [r]) }
     else if used_for_advertising answers = ''unknown'' then Some (score + 3, reasons)
     else Some (score, reasons))"

definition expo_used_for_ai_training :: "AssessmentAnswers \<Rightarrow> int \<times> ReasonCode list \<Rightarrow> (int \<times> ReasonCode list) option" where
  "expo_used_for_ai_training answers = (\<lambda>(score, reasons).
     if used_for_ai_training answers = ''yes'' then
       do { r \<leftarrow> new_reason ''EXPO-AI'' ''exposure'' 4; Some (score + 4, reasons @ [r]) }
     else if used_for_ai_training answers = ''unknown'' then Some (score + 2, reasons)
     else Some (score, reasons))"

definition expo_data_sold :: "AssessmentAnswers \<Rightarrow> int \<times> ReasonCode list \<Rightarrow> (int \<times> ReasonCode list) option" where
  "expo_data_sold answers = (\<lambda>(score, reasons).
     if data_sold answers = ''yes'' then
       do { r \<leftarrow> new_reason ''EXPO-SOLD'' ''exposure'' 6; Some (score + 6, reasons @ [r]) }
     else if data_sold answers = ''unknown'' then Some (score + 4, reasons)
     else Some (score, reasons))"

definition expo_subprocessors_disclosed :: "AssessmentAnswers \<Rightarrow> int \<times> ReasonCode list \<Rightarrow> (int \<times> ReasonCode list) option" where
  "expo_subprocessors_disclosed answers = (\<lambda>(score, reasons).
     if subprocessors_disclosed answers = ''no'' then
       do { r \<leftarrow> new_reason ''EXPO-SUBP'' ''exposure'' 4; Some (score + 4, reasons @ [r]) }
     else if subprocessors_disclosed answers = ''unknown'' then
       do { r \<leftarrow> new_reason ''EXPO-SUBP'' ''exposure'' 3; Some (score + 3, reasons @ [r]) }
     else Some (score, reasons))"

definition expo_data_region :: "AssessmentAnswers \<Rightarrow> int \<times> ReasonCode list \<Rightarrow> (int \<times> ReasonCode list) option" where
  "expo_data_region answers = (\<lambda>(score, reasons).
     if data_region answers = ''global'' then
       do { r \<leftarrow> new_reason ''EXPO-GLOBAL'' ''exposure'' 3; Some (score + 3, reasons @ [r]) }
     else if data_region answers = ''unknown'' then Some (score + 2, reasons)
     else Some (score, reasons))"

definition expo_storage_location :: "AssessmentAnswers \<Rightarrow> int \<times> ReasonCode list \<Rightarrow> (int \<times> ReasonCode list) option" where
  "expo_storage_location answers = (\<lambda>(score, reasons).
     if storage_location answers = ''both'' then
       do { r \<leftarrow> new_reason ''EXPO-BOTH'' ''exposure'' 2; Some (score + 2, reasons @ [r]) }
     else if storage_location answers = ''unknown'' then Some (score + 2, reasons)
     else Some (score, reasons))"

definition calculate_exposure_score :: "AssessmentAnswers \<Rightarrow> (int \<times> ReasonCode list) option" where
  "calculate_exposure_score answers =
     do {
       st \<leftarrow> Some (0, []);
       st \<leftarrow> expo_third_party_sharing answers st;
       st \<leftarrow> expo_used_for_advertising answers st;
       st \<leftarrow> expo_used_for_ai_training answers st;
       st \<leftarrow> expo_data_sold answers st;
       st \<leftarrow> expo_subprocessors_disclosed answers st;
       st \<leftarrow> expo_data_region answers st;
       (score, reasons) \<leftarrow> expo_storage_location answers st;
       Some (min score 25, reasons)
     }"

section \<open>Security controls\<close>

definition sec_sso_supported :: "AssessmentAnswers \<Rightarrow> int \<times> ReasonCode list \<Rightarrow> (int \<times> ReasonCode list) option" where
  "sec_sso_supported answers = (\<lambda>(score, reasons).
     if sso_supported answers \<in> set [''none'', ''unknown''] then
       do { r \<leftarrow> new_reason ''CTRL-NOSSO'' ''security'' 4; Some (score + 4, reasons @ [r]) }
     else Some (score, reasons))"

definition sec_mfa_available :: "AssessmentAnswers \<Rightarrow> int \<times> ReasonCode list \<Rightarrow> (int \<times> ReasonCode list) option" where
  "sec_mfa_available answers = (\<lambda>(score, reasons).
     if mfa_available answers \<noteq> ''yes'' then
       do { r \<leftarrow> new_reason ''CTRL-NOMFA'' ''security'' 4; Some (score + 4, reasons @ [r]) }
     else Some (score, reasons))"

definition sec_rbac_available :: "AssessmentAnswers \<Rightarrow> int \<times> ReasonCode list \<Rightarrow> (int \<times> ReasonCode list) option" where
  "sec_rbac_available answers = (\<lambda>(score, reasons).
     if rbac_available answers \<noteq> ''yes'' then
       do { r \<leftarrow> new_reason ''CTRL-NORBAC'' ''security'' 3; Some (score + 3, reasons @ [r]) }
     else Some (score, reasons))"

definition sec_encryption_transit :: "AssessmentAnswers \<Rightarrow> int \<times> ReasonCode list \<Rightarrow> (int \<times> ReasonCode list) option" where
  "sec_encryption_transit answers = (\<lambda>(score, reasons).
     if encryption_transit answers \<noteq> ''yes'' then
       do { r \<leftarrow> new_reason ''CTRL-NOTRANS'' ''security'' 3; Some (score + 3, reasons @ [r]) }
     else Some (score, reasons))"

definition sec_encryption_rest :: "AssessmentAnswers \<Rightarrow> int \<times> ReasonCode list \<Rightarrow> (int \<times> ReasonCode list) option" where
  "sec_encryption_rest answers = (\<lambda>(score, reasons).
     if encryption_rest answers \<noteq> ''yes'' then
       do { r \<leftarrow> new_reason ''CTRL-NOREST'' ''security'' 3; Some (score + 3, reasons @ [r]) }
     else Some (score, reasons))"

definition sec_audit_logs_available :: "AssessmentAnswers \<Rightarrow> int \<times> ReasonCode list \<Rightarrow> (int \<times> ReasonCode list) option" where
  "sec_audit_logs_available answers = (\<lambda>(score, reasons).
     if audit_logs_available answers \<noteq> ''yes'' then
       do { r \<leftarrow> new_reason ''CTRL-NOAUDIT'' ''security'' 3; Some (score + 3, reasons @ [r]) }
     else Some (score, reasons))"

definition calculate_security_score :: "AssessmentAnswers \<Rightarrow> (int \<times> ReasonCode list) option" where
  "calculate_security_score answers =
     do {
       st \<leftarrow> Some (0, []);
       st \<leftarrow> sec_sso_supported answers st;
       st \<leftarrow> sec_mfa_available answers st;
       st \<leftarrow> sec_rbac_available answers st;
       st \<leftarrow> sec_encryption_transit answers st;
       st \<leftarrow> sec_encryption_rest answers st;
       (score, reasons) \<leftarrow> sec_audit_logs_available answers st;
       Some (min score 20, reasons)
     }"

section \<open>Vendor posture\<close>

definition post_retention_policy_stated :: "AssessmentAnswers \<Rightarrow> int \<times> ReasonCode list \<Rightarrow> (int \<times> ReasonCode list) option" where
  "post_retention_policy_stated answers = (\<lambda>(score, reasons).
     if retention_policy_stated answers \<noteq> ''yes'' then
       do { r \<leftarrow> new_reason ''POST-RETUNK'' ''posture'' 6; Some (score + 6, reasons @ [r]) }
     else Some (score, reasons))"

definition post_deletion_process :: "AssessmentAnswers \<Rightarrow> int \<times> ReasonCode list \<Rightarrow> (int \<times> ReasonCode list) option" where
  "post_deletion_process answers = (\<lambda>(score, reasons).
     if deletion_process answers = ''no'' then
       do { r \<leftarrow> new_reason ''POST-NODEL'' ''posture'' 6; Some (score + 6, reasons @ [r]) }
     else if deletion_process answers = ''unknown'' then
       do { r \<leftarrow> new_reason ''POST-DELUNK'' ''posture'' 5; Some (score + 5, reasons @ [r]) }
     else if deletion_process answers = ''support_ticket'' then
       do { r \<leftarrow> new_reason ''POST-DELUNK'' ''posture'' 3; Some (score + 3, reasons @ [r]) }
     else Some (score, reasons))"

definition calculate_posture_score :: "AssessmentAnswers \<Rightarrow> (int \<times> ReasonCode list) option" where
  "calculate_posture_score answers =
     do {
       st \<leftarrow> Some (0, []);
       st \<leftarrow> post_retention_policy_stated answers st;
       (score, reasons) \<leftarrow> post_deletion_process answers st;
       Some (min score 15, reasons)
     }"

section \<open>Integration blast radius\<close>

definition int_integration_method :: "AssessmentAnswers \<Rightarrow> int \<times> ReasonCode list \<Rightarrow> (int \<times> ReasonCode list) option" where
  "int_integration_method answers = (\<lambda>(score, reasons).
     if integration_method answers = ''api_key'' then
       do { r \<leftarrow> new_reason ''INT-APIKEY'' ''integration'' 3; Some (score + 3, reasons @ [r]) }
     else if integration_method answers = ''unknown'' then Some (score + 2, reasons)
     else Some (score, reasons))"

definition int_integration_frequency :: "AssessmentAnswers \<Rightarrow> int \<times> ReasonCode list \<Rightarrow> (int \<times> ReasonCode list) option" where
  "int_integration_frequency answers = (\<lambda>(score, reasons).
     if integration_frequency answers = ''realtime'' then
       do { r \<leftarrow> new_reason ''INT-REALTIME'' ''integration'' 3; Some (score + 3, reasons @ [r]) }
     else if integration_frequency answers = ''unknown'' then Some (score + 1, reasons)
     else Some (score, reasons))"

definition int_sis_writeback :: "AssessmentAnswers \<Rightarrow> int \<times> ReasonCode list \<Rightarrow> (int \<times> ReasonCode list) option" where
  "int_sis_writeback answers = (\<lambda>(score, reasons).
     if sis_writeback answers = ''yes'' then
       do { r \<leftarrow> new_reason ''INT-SISWB'' ''integration'' 3; Some (score + 3, reasons @ [r]) }
     else if sis_writeback answers = ''unknown'' then Some (score + 2, reasons)
     else Some (score, reasons))"

definition int_integration_types :: "AssessmentAnswers \<Rightarrow> int \<times> ReasonCode list \<Rightarrow> (int \<times> ReasonCode list) option" where
  "int_integration_types answers = (\<lambda>(score, reasons).
     if length (integration_types answers) \<ge> 3 then
       do { r \<leftarrow> new_reason ''INT-MULTI'' ''integration'' 2; Some (score + 2, reasons @ [r]) }
     else Some (score, reasons))"

definition calculate_integration_score :: "AssessmentAnswers \<Rightarrow> (int \<times> ReasonCode list) option" where
  "calculate_integration_score answers =
     do {
       st \<leftarrow> Some (0, []);
       st \<leftarrow> int_integration_method answers st;
       st \<leftarrow> int_integration_frequency answers st;
       st \<leftarrow> int_sis_writeback answers st;
       (score, reasons) \<leftarrow> int_integration_types answers st;
       Some (min score 10, reasons)
     }"

section \<open>Tier and combined score\<close>

definition determine_risk_tier :: "int \<Rightarrow> string" where
  "determine_risk_tier score =
     (if score \<le> 25 then ''Low''
      else if score \<le> 50 then ''Moderate''
      else if score \<le> 75 then ''High''
      else ''Critical'')"

text \<open>\<^verbatim>\<open>all_reasons.sort(key=lambda r: r.points, reverse=True)\<close>: Python's list sort is
  stable, and with \<^verbatim>\<open>reverse=True\<close> elements with equal keys still keep their original
  order. On integer keys that is the stable ascending sort on the negated key, which is
  what \<^const>\<open>sort_key\<close> (insertion sort, stable) computes.\<close>

definition sort_by_points_reverse :: "ReasonCode list \<Rightarrow> ReasonCode list" where
  "sort_by_points_reverse rs = sort_key (\<lambda>r. - points r) rs"

definition calculate_risk_score :: "AssessmentAnswers \<Rightarrow> ScoreResult option" where
  "calculate_risk_score answers =
     do {
       (sens_score, sens_reasons) \<leftarrow> calculate_sensitivity_score answers;
       (expo_score, expo_reasons) \<leftarrow> calculate_exposure_score answers;
       (sec_score, sec_reasons) \<leftarrow> calculate_security_score answers;
       (post_score, post_reasons) \<leftarrow> calculate_posture_score answers;
       (int_score, int_reasons) \<leftarrow> calculate_integration_score answers;
       let total = sens_score + expo_score + sec_score + post_score + int_score;
       let total = min total 100;
       let breakdown =
         [(''sensitivity'', sens_score),
          (''exposure'', expo_score),
          (''security_controls'', sec_score),
          (''vendor_posture'', post_score),
          (''integration_blast_radius'', int_score)];
       let all_reasons = sens_reasons @ expo_reasons @ sec_reasons @ post_reasons @ int_reasons;
       let all_reasons = sort_by_points_reverse all_reasons;
       Some \<lparr>total_score = total, breakdown = breakdown, reason_codes = all_reasons,
             risk_tier = determine_risk_tier total\<rparr>
     }"

section \<open>Concrete answer sets\<close>

text \<open>\<^verbatim>\<open>AssessmentAnswers()\<close>: every field at the default the schema declares.\<close>

definition default_answers :: AssessmentAnswers where
  "default_answers =
     \<lparr>data_types = [], data_types_unknown = False,
      storage_location = ''unknown'', data_region = ''unknown'',
      subprocessors_disclosed = ''unknown'', retention_policy_stated = ''unknown'',
      deletion_process = ''unknown'', sso_supported = ''unknown'',
      mfa_available = ''unknown'', rbac_available = ''unknown'',
      encryption_transit = ''unknown'', encryption_rest = ''unknown'',
      audit_logs_available = ''unknown'', third_party_sharing = ''unknown'',
      used_for_advertising = ''unknown'', used_for_ai_training = ''unknown'',
      data_sold = ''unknown'', integration_types = [],
      integration_method = ''unknown'', integration_frequency = ''unknown'',
      sis_writeback = ''unknown''\<rparr>"

text \<open>The fixture \<^verbatim>\<open>low_risk_answers\<close> of \<^verbatim>\<open>tests/conftest.py\<close>.\<close>

definition low_risk_answers :: AssessmentAnswers where
  "low_risk_answers =
     \<lparr>data_types = [''directory_info'', ''auth_identifiers''], data_types_unknown = False,
      storage_location = ''vendor_cloud'', data_region = ''us_only'',
      subprocessors_disclosed = ''yes'', retention_policy_stated = ''yes'',
      deletion_process = ''self_serve'', sso_supported = ''entra'',
      mfa_available = ''yes'', rbac_available = ''yes'',
      encryption_transit = ''yes'', encryption_rest = ''yes'',
      audit_logs_available = ''yes'', third_party_sharing = ''no'',
      used_for_advertising = ''no'', used_for_ai_training = ''no'',
      data_sold = ''no'', integration_types = [''sso''],
      integration_method = ''oauth'', integration_frequency = ''nightly'',
      sis_writeback = ''no''\<rparr>"

text \<open>Further inputs used below: a list with a repeated entry (the form handler passes
  \<^verbatim>\<open>form_data.getlist("data_types")\<close> on unchanged), the override case of
  \<^verbatim>\<open>test_unknown_overrides_data_types\<close> with a high-sensitivity entry, a mixed list with
  both discipline keys and a key outside the table, and three variants of the low-risk
  fixture: two known integration types, the same with a third entry that is no known
  integration type (\<^verbatim>\<open>integration_types\<close> is declared \<^verbatim>\<open>list[str]\<close>, so the schema accepts
  it), and the six controls compared with \<^verbatim>\<open>!= "yes"\<close> set to a string outside their
  vocabulary (the schema does not validate assignment to a field).\<close>

definition repeated_answers :: AssessmentAnswers where
  "repeated_answers = default_answers\<lparr>data_types := [''iep_504'', ''iep_504'']\<rparr>"

definition unknown_data_answers :: AssessmentAnswers where
  "unknown_data_answers = default_answers\<lparr>data_types := [''iep_504''], data_types_unknown := True\<rparr>"

definition mixed_answers :: AssessmentAnswers where
  "mixed_answers = default_answers\<lparr>data_types :=
     [''iep_504'', ''discipline'', ''attendance_discipline'', ''directory_info'', ''genome'']\<rparr>"

definition two_integrations_answers :: AssessmentAnswers where
  "two_integrations_answers = low_risk_answers\<lparr>integration_types := [''sis'', ''lms'']\<rparr>"

definition odd_integration_answers :: AssessmentAnswers where
  "odd_integration_answers =
     low_risk_answers\<lparr>integration_types := [''sis'', ''lms'', ''bogus'']\<rparr>"

definition odd_controls_answers :: AssessmentAnswers where
  "odd_controls_answers =
     low_risk_answers\<lparr>mfa_available := ''maybe'', rbac_available := ''maybe'',
       encryption_transit := ''maybe'', encryption_rest := ''maybe'',
       audit_logs_available := ''maybe'', retention_policy_stated := ''maybe''\<rparr>"

text \<open>An answer set of the right field types in which no enumerated value, no
  \<open>data_types\<close> key and no \<open>integration_types\<close> entry is one the module or the schema
  knows, and the same with a single integration type.\<close>

definition odd_answers :: AssessmentAnswers where
  "odd_answers =
     \<lparr>data_types = [''genome''], data_types_unknown = False,
      storage_location = ''maybe'', data_region = ''maybe'',
      subprocessors_disclosed = ''maybe'', retention_policy_stated = ''maybe'',
      deletion_process = ''maybe'', sso_supported = ''maybe'',
      mfa_available = ''maybe'', rbac_available = ''maybe'',
      encryption_transit = ''maybe'', encryption_rest = ''maybe'',
      audit_logs_available = ''maybe'', third_party_sharing = ''maybe'',
      used_for_advertising = ''maybe'', used_for_ai_training = ''maybe'',
      data_sold = ''maybe'', integration_types = [''maybe'', ''perhaps'', ''possibly''],
      integration_method = ''maybe'', integration_frequency = ''maybe'',
      sis_writeback = ''maybe''\<rparr>"

definition odd_answers_one_integration :: AssessmentAnswers where
  "odd_answers_one_integration = odd_answers\<lparr>integration_types := [''maybe'']\<rparr>"

section \<open>The specification's tables\<close>

text \<open>What a reason code is identified by in the specification: its code and its points.\<close>

definition code_points :: "ReasonCode \<Rightarrow> string \<times> int" where
  "code_points r = (code r, points r)"

text \<open>The sensitivity table as the specification lists it, written as a function,
  and the categories that carry a reason code.\<close>

definition spec_data_type_points :: "string \<Rightarrow> int" where
  "spec_data_type_points k =
     (if k = ''iep_504'' then 8
      else if k = ''health'' then 8
      else if k = ''biometrics'' then 8
      else if k = ''behavioral_sel'' then 7
      else if k = ''precise_location'' then 7
      else if k = ''discipline'' then 6
      else if k = ''photos_video_audio'' then 4
      else if k = ''staff_notes'' then 4
      else if k = ''academic_records'' then 3
      else if k = ''attendance_discipline'' then 3
      else if k = ''directory_info'' then 2
      else if k = ''contact_info'' then 2
      else if k = ''auth_identifiers'' then 1
      else if k = ''device_identifiers'' then 1
      else 0)"

definition spec_sens_code :: "string \<Rightarrow> string option" where
  "spec_sens_code k =
     (if k = ''iep_504'' then Some ''SENS-IEP''
      else if k = ''health'' then Some ''SENS-HEALTH''
      else if k = ''behavioral_sel'' then Some ''SENS-BEHAV''
      else if k = ''biometrics'' then Some ''SENS-BIO''
      else if k = ''precise_location'' then Some ''SENS-LOC''
      else if k = ''discipline'' then Some ''SENS-DISC''
      else if k = ''attendance_discipline'' then Some ''SENS-DISC''
      else if k = ''photos_video_audio'' then Some ''SENS-MEDIA''
      else None)"

definition spec_sens_reasons :: "string \<Rightarrow> (string \<times> int) list" where
  "spec_sens_reasons k =
     (case spec_sens_code k of None \<Rightarrow> [] | Some c \<Rightarrow> [(c, spec_data_type_points k)])"

text \<open>The exposure weights and codes, field by field.\<close>

definition spec_exposure_points :: "AssessmentAnswers \<Rightarrow> int" where
  "spec_exposure_points a =
     (if third_party_sharing a = ''yes'' then 6 else if third_party_sharing a = ''unknown'' then 4 else 0)
   + (if used_for_advertising a = ''yes'' then 5 else if used_for_advertising a = ''unknown'' then 3 else 0)
   + (if used_for_ai_training a = ''yes'' then 4 else if used_for_ai_training a = ''unknown'' then 2 else 0)
   + (if data_sold a = ''yes'' then 6 else if data_sold a = ''unknown'' then 4 else 0)
   + (if subprocessors_disclosed a = ''no'' then 4 else if subprocessors_disclosed a = ''unknown'' then 3 else 0)
   + (if data_region a = ''global'' then 3 else if data_region a = ''unknown'' then 2 else 0)
   + (if storage_location a = ''both'' then 2 else if storage_location a = ''unknown'' then 2 else 0)"

definition spec_exposure_codes :: "AssessmentAnswers \<Rightarrow> (string \<times> int) list" where
  "spec_exposure_codes a =
     (if third_party_sharing a = ''yes'' then [(''EXPO-SHARE'', 6)] else [])
   @ (if used_for_advertising a = ''yes'' then [(''EXPO-ADS'', 5)] else [])
   @ (if used_for_ai_training a = ''yes'' then [(''EXPO-AI'', 4)] else [])
   @ (if data_sold a = ''yes'' then [(''EXPO-SOLD'', 6)] else [])
   @ (if subprocessors_disclosed a = ''no'' then [(''EXPO-SUBP'', 4)]
      else if subprocessors_disclosed a = ''unknown'' then [(''EXPO-SUBP'', 3)] else [])
   @ (if data_region a = ''global'' then [(''EXPO-GLOBAL'', 3)] else [])
   @ (if storage_location a = ''both'' then [(''EXPO-BOTH'', 2)] else [])"

text \<open>The vendor-posture weights and codes.\<close>

definition spec_posture_points :: "AssessmentAnswers \<Rightarrow> int" where
  "spec_posture_points a =
     (if retention_policy_stated a = ''yes'' then 0 else 6)
   + (if deletion_process a = ''no'' then 6
      else if deletion_process a = ''unknown'' then 5
      else if deletion_process a = ''support_ticket'' then 3
      else 0)"

definition spec_posture_codes :: "AssessmentAnswers \<Rightarrow> (string \<times> int) list" where
  "spec_posture_codes a =
     (if retention_policy_stated a = ''yes'' then [] else [(''POST-RETUNK'', 6)])
   @ (if deletion_process a = ''no'' then [(''POST-NODEL'', 6)]
      else if deletion_process a = ''unknown'' then [(''POST-DELUNK'', 5)]
      else if deletion_process a = ''support_ticket'' then [(''POST-DELUNK'', 3)]
      else [])"

section \<open>Invariant of the running score and reasons\<close>

text \<open>Every block keeps the running score non-negative and only ever appends reason codes
  with at least one point.\<close>

definition acc_ok :: "int \<times> ReasonCode list \<Rightarrow> bool" where
  "acc_ok st = (0 \<le> fst st \<and> list_all (\<lambda>r. 1 \<le> points r) (snd st))"

definition scorer_ok :: "int \<Rightarrow> (int \<times> ReasonCode list) option \<Rightarrow> bool" where
  "scorer_ok cap res =
     (case res of None \<Rightarrow> False
      | Some (s, rs) \<Rightarrow> 0 \<le> s \<and> s \<le> cap \<and> list_all (\<lambda>r. 1 \<le> points r) rs)"

text \<open>The explanation stored under a reason code; the proofs below never need its text.\<close>

definition template_of :: "string \<Rightarrow> string" where
  "template_of c = dict_get REASON_TEMPLATES c []"

section \<open>Unfolding and evaluation\<close>

lemma template_keys:
  "map fst REASON_TEMPLATES =
    [''SENS-IEP'', ''SENS-HEALTH'', ''SENS-BEHAV'', ''SENS-BIO'', ''SENS-LOC'', ''SENS-DISC'',
     ''SENS-MEDIA'', ''SENS-UNK'',
     ''EXPO-SHARE'', ''EXPO-ADS'', ''EXPO-AI'', ''EXPO-SOLD'', ''EXPO-SUBP'', ''EXPO-GLOBAL'',
     ''EXPO-BOTH'',
     ''CTRL-NOSSO'', ''CTRL-NOMFA'', ''CTRL-NORBAC'', ''CTRL-NOTRANS'', ''CTRL-NOREST'',
     ''CTRL-NOAUDIT'',
     ''POST-RETUNK'', ''POST-DELUNK'', ''POST-NODEL'',
     ''INT-APIKEY'', ''INT-REALTIME'', ''INT-SISWB'', ''INT-MULTI'']"
  by (simp add: REASON_TEMPLATES_def)

text \<open>Every code the scorers pass to \<^const>\<open>new_reason\<close> is a key of the table, so the
  lookup succeeds.\<close>

lemma new_reason_key:
  assumes "c \<in> set (map fst REASON_TEMPLATES)"
  shows "new_reason c cat p =
    Some \<lparr>code = c, explanation = template_of c, category = cat, points = p\<rparr>"
proof -
  from assms obtain e where "map_of REASON_TEMPLATES c = Some e"
    by (cases "map_of REASON_TEMPLATES c") (auto simp add: map_of_eq_None_iff)
  then show ?thesis
    by (simp add: new_reason_def getitem_def template_of_def dict_get_def)
qed

lemmas lookup_defs = new_reason_key [unfolded template_keys]

lemmas expo_step_defs =
  expo_third_party_sharing_def expo_used_for_advertising_def expo_used_for_ai_training_def
  expo_data_sold_def expo_subprocessors_disclosed_def expo_data_region_def
  expo_storage_location_def

lemmas sec_step_defs =
  sec_sso_supported_def sec_mfa_available_def sec_rbac_available_def
  sec_encryption_transit_def sec_encryption_rest_def sec_audit_logs_available_def

lemmas post_step_defs = post_retention_policy_stated_def post_deletion_process_def

lemmas int_step_defs =
  int_integration_method_def int_integration_frequency_def int_sis_writeback_def
  int_integration_types_def

lemmas scorer_defs =
  calculate_sensitivity_score_def calculate_exposure_score_def calculate_security_score_def
  calculate_posture_score_def calculate_integration_score_def

lemmas eval_defs =
  calculate_risk_score_def scorer_defs sens_body_def dict_get_def DATA_TYPE_POINTS_def
  expo_step_defs sec_step_defs post_step_defs int_step_defs lookup_defs
  determine_risk_tier_def sort_by_points_reverse_def

section \<open>Risk tier\<close>

text \<open>Claim C2. The tier depends on the total alone, in bands with inclusive upper
  bounds: Low up to 25, Moderate from 26 to 50, High from 51 to 75, Critical from 76
  to 100.\<close>

theorem determine_risk_tier_bands:
  "(score \<le> 25 \<longrightarrow> determine_risk_tier score = ''Low'')
   \<and> (26 \<le> score \<and> score \<le> 50 \<longrightarrow> determine_risk_tier score = ''Moderate'')
   \<and> (51 \<le> score \<and> score \<le> 75 \<longrightarrow> determine_risk_tier score = ''High'')
   \<and> (76 \<le> score \<and> score \<le> 100 \<longrightarrow> determine_risk_tier score = ''Critical'')"
  by (simp add: determine_risk_tier_def)

text \<open>The band edges named by the specification.\<close>

theorem determine_risk_tier_bands_witness:
  "determine_risk_tier 25 = ''Low''
   \<and> determine_risk_tier 26 = ''Moderate'' \<and> determine_risk_tier 50 = ''Moderate''
   \<and> determine_risk_tier 51 = ''High'' \<and> determine_risk_tier 75 = ''High''
   \<and> determine_risk_tier 76 = ''Critical'' \<and> determine_risk_tier 100 = ''Critical''"
  using determine_risk_tier_bands [of 25] determine_risk_tier_bands [of 26]
    determine_risk_tier_bands [of 50] determine_risk_tier_bands [of 51]
    determine_risk_tier_bands [of 75] determine_risk_tier_bands [of 76]
    determine_risk_tier_bands [of 100]
  by simp

section \<open>The default answer set\<close>

text \<open>Claim C9. With every field at its default the score is 56, so it is positive and
  the tier is High, one of Moderate and High.\<close>

theorem default_answers_score:
  "\<exists>r. calculate_risk_score default_answers = Some r
       \<and> total_score r = 56 \<and> 0 < total_score r
       \<and> risk_tier r = ''High'' \<and> (risk_tier r = ''Moderate'' \<or> risk_tier r = ''High'')"
  by (simp add: default_answers_def eval_defs)

section \<open>Every scorer returns, within its cap\<close>

lemma expo_steps_ok:
  assumes "acc_ok st"
  shows "\<exists>st'. expo_third_party_sharing a st = Some st' \<and> acc_ok st'"
    and "\<exists>st'. expo_used_for_advertising a st = Some st' \<and> acc_ok st'"
    and "\<exists>st'. expo_used_for_ai_training a st = Some st' \<and> acc_ok st'"
    and "\<exists>st'. expo_data_sold a st = Some st' \<and> acc_ok st'"
    and "\<exists>st'. expo_subprocessors_disclosed a st = Some st' \<and> acc_ok st'"
    and "\<exists>st'. expo_data_region a st = Some st' \<and> acc_ok st'"
    and "\<exists>st'. expo_storage_location a st = Some st' \<and> acc_ok st'"
  using assms by (cases st; simp add: expo_step_defs acc_ok_def lookup_defs)+

lemma sec_steps_ok:
  assumes "acc_ok st"
  shows "\<exists>st'. sec_sso_supported a st = Some st' \<and> acc_ok st'"
    and "\<exists>st'. sec_mfa_available a st = Some st' \<and> acc_ok st'"
    and "\<exists>st'. sec_rbac_available a st = Some st' \<and> acc_ok st'"
    and "\<exists>st'. sec_encryption_transit a st = Some st' \<and> acc_ok st'"
    and "\<exists>st'. sec_encryption_rest a st = Some st' \<and> acc_ok st'"
    and "\<exists>st'. sec_audit_logs_available a st = Some st' \<and> acc_ok st'"
  using assms by (cases st; simp add: sec_step_defs acc_ok_def lookup_defs)+

lemma post_steps_ok:
  assumes "acc_ok st"
  shows "\<exists>st'. post_retention_policy_stated a st = Some st' \<and> acc_ok st'"
    and "\<exists>st'. post_deletion_process a st = Some st' \<and> acc_ok st'"
  using assms by (cases st; simp add: post_step_defs acc_ok_def lookup_defs)+

lemma int_steps_ok:
  assumes "acc_ok st"
  shows "\<exists>st'. int_integration_method a st = Some st' \<and> acc_ok st'"
    and "\<exists>st'. int_integration_frequency a st = Some st' \<and> acc_ok st'"
    and "\<exists>st'. int_sis_writeback a st = Some st' \<and> acc_ok st'"
    and "\<exists>st'. int_integration_types a st = Some st' \<and> acc_ok st'"
  using assms by (cases st; simp add: int_step_defs acc_ok_def lookup_defs)+

lemma sens_body_ok:
  assumes "acc_ok st"
  shows "\<exists>st'. sens_body k st = Some st' \<and> acc_ok st'"
  using assms
  by (cases st; simp add: sens_body_def acc_ok_def lookup_defs dict_get_def DATA_TYPE_POINTS_def Let_def)

lemma sens_loop_ok:
  "acc_ok st \<Longrightarrow> \<exists>st'. sens_loop ks st = Some st' \<and> acc_ok st'"
proof (induction ks arbitrary: st)
  case Nil
  then show ?case by simp
next
  case (Cons k ks)
  from sens_body_ok [OF Cons.prems] obtain st1
    where "sens_body k st = Some st1" and "acc_ok st1" by blast
  with Cons.IH [of st1] show ?case by simp
qed

lemma acc_ok_init: "acc_ok (0, [])"
  by (simp add: acc_ok_def)

lemma bind_ok:
  assumes "\<exists>st'. m = Some st' \<and> acc_ok st'"
    and "\<And>st'. acc_ok st' \<Longrightarrow> \<exists>st''. f st' = Some st'' \<and> Q st''"
  shows "\<exists>st''. (m \<bind> f) = Some st'' \<and> Q st''"
  using assms by auto

lemma finish_ok:
  "0 \<le> cap \<Longrightarrow> acc_ok st \<Longrightarrow>
   \<exists>st''. (case st of (score, reasons) \<Rightarrow> Some (min score cap, reasons)) = Some st''
         \<and> scorer_ok cap (Some st'')"
  by (cases st) (simp add: acc_ok_def scorer_ok_def)

lemma scorer_okI: "\<exists>st. res = Some st \<and> scorer_ok cap (Some st) \<Longrightarrow> scorer_ok cap res"
  by auto

lemma sensitivity_ok: "scorer_ok 30 (calculate_sensitivity_score a)"
proof (cases "data_types_unknown a")
  case True
  then show ?thesis
    by (simp add: calculate_sensitivity_score_def scorer_ok_def lookup_defs)
next
  case False
  have "\<exists>st. (sens_loop (data_types a) (0, []) \<bind> (\<lambda>(score, reasons). Some (min score 30, reasons))) = Some st
        \<and> scorer_ok 30 (Some st)"
    by (intro bind_ok sens_loop_ok finish_ok) (simp_all add: acc_ok_init)
  with False show ?thesis
    by (auto simp add: calculate_sensitivity_score_def)
qed

lemma exposure_ok: "scorer_ok 25 (calculate_exposure_score a)"
  unfolding calculate_exposure_score_def
  by (intro scorer_okI bind_ok expo_steps_ok finish_ok) (simp_all add: acc_ok_init)

lemma security_ok: "scorer_ok 20 (calculate_security_score a)"
  unfolding calculate_security_score_def
  by (intro scorer_okI bind_ok sec_steps_ok finish_ok) (simp_all add: acc_ok_init)

lemma posture_ok: "scorer_ok 15 (calculate_posture_score a)"
  unfolding calculate_posture_score_def
  by (intro scorer_okI bind_ok post_steps_ok finish_ok) (simp_all add: acc_ok_init)

lemma integration_ok: "scorer_ok 10 (calculate_integration_score a)"
  unfolding calculate_integration_score_def
  by (intro scorer_okI bind_ok int_steps_ok finish_ok) (simp_all add: acc_ok_init)

lemma scorer_okE:
  assumes "scorer_ok cap res"
  obtains s rs where "res = Some (s, rs)" and "0 \<le> s" and "s \<le> cap"
    and "list_all (\<lambda>r. 1 \<le> points r) rs"
  using assms by (auto simp add: scorer_ok_def split: option.splits)

text \<open>The combined result, in terms of the five scorers' results.\<close>

lemma calculate_risk_score_unfold:
  assumes "calculate_sensitivity_score a = Some (s1, r1)"
    and "calculate_exposure_score a = Some (s2, r2)"
    and "calculate_security_score a = Some (s3, r3)"
    and "calculate_posture_score a = Some (s4, r4)"
    and "calculate_integration_score a = Some (s5, r5)"
  shows "calculate_risk_score a =
    Some \<lparr>total_score = min (s1 + s2 + s3 + s4 + s5) 100,
          breakdown = [(''sensitivity'', s1), (''exposure'', s2), (''security_controls'', s3),
                       (''vendor_posture'', s4), (''integration_blast_radius'', s5)],
          reason_codes = sort_by_points_reverse (r1 @ r2 @ r3 @ r4 @ r5),
          risk_tier = determine_risk_tier (min (s1 + s2 + s3 + s4 + s5) 100)\<rparr>"
  by (simp add: calculate_risk_score_def assms Let_def)

section \<open>Bounds of the result\<close>

text \<open>Claim C1. For every answer set the combined scoring returns a result whose five
  breakdown entries lie between 0 and their caps 30, 25, 20, 15 and 10; their plain sum
  is at most 100, so the total equals that sum (the final clamp changes nothing) and
  lies between 0 and 100.\<close>

theorem risk_score_bounds:
  "\<exists>r s e c p i.
     calculate_risk_score a = Some r
     \<and> breakdown r = [(''sensitivity'', s), (''exposure'', e), (''security_controls'', c),
                      (''vendor_posture'', p), (''integration_blast_radius'', i)]
     \<and> 0 \<le> s \<and> s \<le> 30 \<and> 0 \<le> e \<and> e \<le> 25 \<and> 0 \<le> c \<and> c \<le> 20
     \<and> 0 \<le> p \<and> p \<le> 15 \<and> 0 \<le> i \<and> i \<le> 10
     \<and> s + e + c + p + i \<le> 100
     \<and> total_score r = s + e + c + p + i
     \<and> 0 \<le> total_score r \<and> total_score r \<le> 100"
proof -
  obtain s1 r1 where 1: "calculate_sensitivity_score a = Some (s1, r1)" "0 \<le> s1" "s1 \<le> 30"
    using sensitivity_ok [of a] by (rule scorer_okE)
  obtain s2 r2 where 2: "calculate_exposure_score a = Some (s2, r2)" "0 \<le> s2" "s2 \<le> 25"
    using exposure_ok [of a] by (rule scorer_okE)
  obtain s3 r3 where 3: "calculate_security_score a = Some (s3, r3)" "0 \<le> s3" "s3 \<le> 20"
    using security_ok [of a] by (rule scorer_okE)
  obtain s4 r4 where 4: "calculate_posture_score a = Some (s4, r4)" "0 \<le> s4" "s4 \<le> 15"
    using posture_ok [of a] by (rule scorer_okE)
  obtain s5 r5 where 5: "calculate_integration_score a = Some (s5, r5)" "0 \<le> s5" "s5 \<le> 10"
    using integration_ok [of a] by (rule scorer_okE)
  have le: "s1 + s2 + s3 + s4 + s5 \<le> 100"
    using 1 2 3 4 5 by linarith
  have ge: "0 \<le> s1 + s2 + s3 + s4 + s5"
    using 1 2 3 4 5 by linarith
  show ?thesis
    using calculate_risk_score_unfold [OF 1(1) 2(1) 3(1) 4(1) 5(1)] 1 2 3 4 5 le ge
    by simp
qed

section \<open>Order of the reason codes\<close>

text \<open>Claim C7. The reason codes of the result are the five scorers' lists, concatenated
  in the order sensitivity, exposure, security, posture, integration, and rearranged so
  that the points never increase along the list, while the codes of any one point value
  keep the order they have in the concatenation.\<close>

theorem reason_codes_sorted_stable:
  "\<exists>r s1 r1 s2 r2 s3 r3 s4 r4 s5 r5.
     calculate_sensitivity_score a = Some (s1, r1)
     \<and> calculate_exposure_score a = Some (s2, r2)
     \<and> calculate_security_score a = Some (s3, r3)
     \<and> calculate_posture_score a = Some (s4, r4)
     \<and> calculate_integration_score a = Some (s5, r5)
     \<and> calculate_risk_score a = Some r
     \<and> mset (reason_codes r) = mset (r1 @ r2 @ r3 @ r4 @ r5)
     \<and> sorted_wrt (\<lambda>x y. points x \<ge> points y) (reason_codes r)
     \<and> (\<forall>n. filter (\<lambda>x. points x = n) (reason_codes r)
            = filter (\<lambda>x. points x = n) (r1 @ r2 @ r3 @ r4 @ r5))"
proof -
  obtain s1 r1 where 1: "calculate_sensitivity_score a = Some (s1, r1)"
    using sensitivity_ok [of a] by (rule scorer_okE)
  obtain s2 r2 where 2: "calculate_exposure_score a = Some (s2, r2)"
    using exposure_ok [of a] by (rule scorer_okE)
  obtain s3 r3 where 3: "calculate_security_score a = Some (s3, r3)"
    using security_ok [of a] by (rule scorer_okE)
  obtain s4 r4 where 4: "calculate_posture_score a = Some (s4, r4)"
    using posture_ok [of a] by (rule scorer_okE)
  obtain s5 r5 where 5: "calculate_integration_score a = Some (s5, r5)"
    using integration_ok [of a] by (rule scorer_okE)
  let ?xs = "r1 @ r2 @ r3 @ r4 @ r5"
  have m: "mset (sort_by_points_reverse ?xs) = mset ?xs"
    by (simp add: sort_by_points_reverse_def)
  have "sorted (map (\<lambda>r. - points r) (sort_by_points_reverse ?xs))"
    unfolding sort_by_points_reverse_def by (rule sorted_sort_key)
  then have s: "sorted_wrt (\<lambda>x y. points x \<ge> points y) (sort_by_points_reverse ?xs)"
    by (simp add: sorted_map)
  have f: "filter (\<lambda>x. points x = n) (sort_by_points_reverse ?xs)
         = filter (\<lambda>x. points x = n) ?xs" for n
    using sort_key_stable [of "\<lambda>r. - points r" "- n" ?xs]
    by (simp add: sort_by_points_reverse_def)
  show ?thesis
    using calculate_risk_score_unfold [OF 1 2 3 4 5] 1 2 3 4 5 m s f
    by simp
qed

section \<open>Points of the reason codes\<close>

text \<open>Claim C10. Every reason code a scorer emits, and so every reason code of the
  result, has at least one point.\<close>

theorem reason_points_positive:
  "\<exists>r s1 r1 s2 r2 s3 r3 s4 r4 s5 r5.
     calculate_sensitivity_score a = Some (s1, r1) \<and> (\<forall>x\<in>set r1. 1 \<le> points x)
     \<and> calculate_exposure_score a = Some (s2, r2) \<and> (\<forall>x\<in>set r2. 1 \<le> points x)
     \<and> calculate_security_score a = Some (s3, r3) \<and> (\<forall>x\<in>set r3. 1 \<le> points x)
     \<and> calculate_posture_score a = Some (s4, r4) \<and> (\<forall>x\<in>set r4. 1 \<le> points x)
     \<and> calculate_integration_score a = Some (s5, r5) \<and> (\<forall>x\<in>set r5. 1 \<le> points x)
     \<and> calculate_risk_score a = Some r \<and> (\<forall>x\<in>set (reason_codes r). 1 \<le> points x)"
proof -
  obtain s1 r1 where 1: "calculate_sensitivity_score a = Some (s1, r1)"
    and p1: "list_all (\<lambda>r. 1 \<le> points r) r1"
    using sensitivity_ok [of a] by (rule scorer_okE)
  obtain s2 r2 where 2: "calculate_exposure_score a = Some (s2, r2)"
    and p2: "list_all (\<lambda>r. 1 \<le> points r) r2"
    using exposure_ok [of a] by (rule scorer_okE)
  obtain s3 r3 where 3: "calculate_security_score a = Some (s3, r3)"
    and p3: "list_all (\<lambda>r. 1 \<le> points r) r3"
    using security_ok [of a] by (rule scorer_okE)
  obtain s4 r4 where 4: "calculate_posture_score a = Some (s4, r4)"
    and p4: "list_all (\<lambda>r. 1 \<le> points r) r4"
    using posture_ok [of a] by (rule scorer_okE)
  obtain s5 r5 where 5: "calculate_integration_score a = Some (s5, r5)"
    and p5: "list_all (\<lambda>r. 1 \<le> points r) r5"
    using integration_ok [of a] by (rule scorer_okE)
  have "set (sort_by_points_reverse (r1 @ r2 @ r3 @ r4 @ r5)) = set (r1 @ r2 @ r3 @ r4 @ r5)"
    by (simp add: sort_by_points_reverse_def)
  then show ?thesis
    using calculate_risk_score_unfold [OF 1 2 3 4 5] 1 2 3 4 5 p1 p2 p3 p4 p5
    by (auto simp add: list_all_iff)
qed

text \<open>On the default answer set the result holds nine reason codes, each with at least
  one point.\<close>

theorem reason_points_positive_witness:
  "\<exists>r. calculate_risk_score default_answers = Some r
       \<and> length (reason_codes r) = 9
       \<and> list_all (\<lambda>x. 1 \<le> points x) (reason_codes r)"
  using reason_points_positive [of default_answers]
  by (auto simp add: list_all_iff default_answers_def eval_defs)

section \<open>Sensitivity when the data types are unknown\<close>

text \<open>Claim C3. When \<open>data_types_unknown\<close> is set the sensitivity score is exactly 10
  with exactly one reason code, \<open>SENS-UNK\<close> with 10 points, whatever \<open>data_types\<close>
  holds.\<close>

theorem unknown_data_types_override:
  "data_types_unknown a \<Longrightarrow>
   \<exists>r. calculate_sensitivity_score a = Some (10, [r])
       \<and> code r = ''SENS-UNK'' \<and> category r = ''sensitivity'' \<and> points r = 10"
  by (simp add: calculate_sensitivity_score_def lookup_defs)

text \<open>With \<open>iep_504\<close> listed and the flag set, the score is 10 and not 18.\<close>

theorem unknown_data_types_override_witness:
  "data_types unknown_data_answers = [''iep_504'']
   \<and> data_types_unknown unknown_data_answers
   \<and> map_option fst (calculate_sensitivity_score unknown_data_answers) = Some 10
   \<and> map_option (map code_points \<circ> snd) (calculate_sensitivity_score unknown_data_answers)
       = Some [(''SENS-UNK'', 10)]"
proof -
  have h: "data_types_unknown unknown_data_answers"
    by (simp add: unknown_data_answers_def default_answers_def)
  show ?thesis
    using h unknown_data_types_override [OF h]
    by (auto simp add: unknown_data_answers_def default_answers_def code_points_def)
qed

section \<open>Exposure, field by field\<close>

lemma expo_steps_exact:
  "\<exists>r'. expo_third_party_sharing a (s, rs) =
      Some (s + (if third_party_sharing a = ''yes'' then 6 else if third_party_sharing a = ''unknown'' then 4 else 0), rs @ r')
    \<and> map code_points r' = (if third_party_sharing a = ''yes'' then [(''EXPO-SHARE'', 6)] else [])"
  "\<exists>r'. expo_used_for_advertising a (s, rs) =
      Some (s + (if used_for_advertising a = ''yes'' then 5 else if used_for_advertising a = ''unknown'' then 3 else 0), rs @ r')
    \<and> map code_points r' = (if used_for_advertising a = ''yes'' then [(''EXPO-ADS'', 5)] else [])"
  "\<exists>r'. expo_used_for_ai_training a (s, rs) =
      Some (s + (if used_for_ai_training a = ''yes'' then 4 else if used_for_ai_training a = ''unknown'' then 2 else 0), rs @ r')
    \<and> map code_points r' = (if used_for_ai_training a = ''yes'' then [(''EXPO-AI'', 4)] else [])"
  "\<exists>r'. expo_data_sold a (s, rs) =
      Some (s + (if data_sold a = ''yes'' then 6 else if data_sold a = ''unknown'' then 4 else 0), rs @ r')
    \<and> map code_points r' = (if data_sold a = ''yes'' then [(''EXPO-SOLD'', 6)] else [])"
  "\<exists>r'. expo_subprocessors_disclosed a (s, rs) =
      Some (s + (if subprocessors_disclosed a = ''no'' then 4 else if subprocessors_disclosed a = ''unknown'' then 3 else 0), rs @ r')
    \<and> map code_points r' = (if subprocessors_disclosed a = ''no'' then [(''EXPO-SUBP'', 4)]
      else if subprocessors_disclosed a = ''unknown'' then [(''EXPO-SUBP'', 3)] else [])"
  "\<exists>r'. expo_data_region a (s, rs) =
      Some (s + (if data_region a = ''global'' then 3 else if data_region a = ''unknown'' then 2 else 0), rs @ r')
    \<and> map code_points r' = (if data_region a = ''global'' then [(''EXPO-GLOBAL'', 3)] else [])"
  "\<exists>r'. expo_storage_location a (s, rs) =
      Some (s + (if storage_location a = ''both'' then 2 else if storage_location a = ''unknown'' then 2 else 0), rs @ r')
    \<and> map code_points r' = (if storage_location a = ''both'' then [(''EXPO-BOTH'', 2)] else [])"
  by (simp_all add: expo_step_defs lookup_defs code_points_def)

text \<open>Claim C5. The exposure score is the sum of the seven per-field weights, clamped
  to at most 25: sharing yes 6 (code \<open>EXPO-SHARE\<close>) or unknown 4; advertising yes 5 (code)
  or unknown 3; AI training yes 4 (code) or unknown 2; data sold yes 6 (code) or unknown 4;
  subprocessors no 4 or unknown 3, both with code \<open>EXPO-SUBP\<close>; region global 3 (code) or
  unknown 2; storage both 2 (code) or unknown 2; any other value 0. Only the
  subprocessors field emits a code on unknown. The reason codes come in field order.\<close>

theorem exposure_score_spec:
  "\<exists>rs. calculate_exposure_score a = Some (min (spec_exposure_points a) 25, rs)
        \<and> map code_points rs = spec_exposure_codes a"
proof -
  define w1 c1 where "w1 = (if third_party_sharing a = ''yes'' then 6 else if third_party_sharing a = ''unknown'' then 4 else (0::int))"
    and "c1 = (if third_party_sharing a = ''yes'' then [(''EXPO-SHARE'', 6::int)] else [])"
  define w2 c2 where "w2 = (if used_for_advertising a = ''yes'' then 5 else if used_for_advertising a = ''unknown'' then 3 else (0::int))"
    and "c2 = (if used_for_advertising a = ''yes'' then [(''EXPO-ADS'', 5::int)] else [])"
  define w3 c3 where "w3 = (if used_for_ai_training a = ''yes'' then 4 else if used_for_ai_training a = ''unknown'' then 2 else (0::int))"
    and "c3 = (if used_for_ai_training a = ''yes'' then [(''EXPO-AI'', 4::int)] else [])"
  define w4 c4 where "w4 = (if data_sold a = ''yes'' then 6 else if data_sold a = ''unknown'' then 4 else (0::int))"
    and "c4 = (if data_sold a = ''yes'' then [(''EXPO-SOLD'', 6::int)] else [])"
  define w5 c5 where "w5 = (if subprocessors_disclosed a = ''no'' then 4 else if subprocessors_disclosed a = ''unknown'' then 3 else (0::int))"
    and "c5 = (if subprocessors_disclosed a = ''no'' then [(''EXPO-SUBP'', 4::int)]
      else if subprocessors_disclosed a = ''unknown'' then [(''EXPO-SUBP'', 3)] else [])"
  define w6 c6 where "w6 = (if data_region a = ''global'' then 3 else if data_region a = ''unknown'' then 2 else (0::int))"
    and "c6 = (if data_region a = ''global'' then [(''EXPO-GLOBAL'', 3::int)] else [])"
  define w7 c7 where "w7 = (if storage_location a = ''both'' then 2 else if storage_location a = ''unknown'' then 2 else (0::int))"
    and "c7 = (if storage_location a = ''both'' then [(''EXPO-BOTH'', 2::int)] else [])"
  note wc = w1_def c1_def w2_def c2_def w3_def c3_def w4_def c4_def w5_def c5_def
    w6_def c6_def w7_def c7_def
  obtain r1 where 1: "expo_third_party_sharing a (0, []) = Some (0 + w1, [] @ r1)"
      "map code_points r1 = c1"
    unfolding wc using expo_steps_exact(1) by blast
  obtain r2 where 2: "expo_used_for_advertising a (0 + w1, [] @ r1)
        = Some (0 + w1 + w2, ([] @ r1) @ r2)"
      "map code_points r2 = c2"
    unfolding wc using expo_steps_exact(2) by blast
  obtain r3 where 3: "expo_used_for_ai_training a (0 + w1 + w2, ([] @ r1) @ r2)
        = Some (0 + w1 + w2 + w3, (([] @ r1) @ r2) @ r3)"
      "map code_points r3 = c3"
    unfolding wc using expo_steps_exact(3) by blast
  obtain r4 where 4: "expo_data_sold a (0 + w1 + w2 + w3, (([] @ r1) @ r2) @ r3)
        = Some (0 + w1 + w2 + w3 + w4, ((([] @ r1) @ r2) @ r3) @ r4)"
      "map code_points r4 = c4"
    unfolding wc using expo_steps_exact(4) by blast
  obtain r5 where 5: "expo_subprocessors_disclosed a
          (0 + w1 + w2 + w3 + w4, ((([] @ r1) @ r2) @ r3) @ r4)
        = Some (0 + w1 + w2 + w3 + w4 + w5, (((([] @ r1) @ r2) @ r3) @ r4) @ r5)"
      "map code_points r5 = c5"
    unfolding wc using expo_steps_exact(5) by blast
  obtain r6 where 6: "expo_data_region a
          (0 + w1 + w2 + w3 + w4 + w5, (((([] @ r1) @ r2) @ r3) @ r4) @ r5)
        = Some (0 + w1 + w2 + w3 + w4 + w5 + w6, ((((([] @ r1) @ r2) @ r3) @ r4) @ r5) @ r6)"
      "map code_points r6 = c6"
    unfolding wc using expo_steps_exact(6) by blast
  obtain r7 where 7: "expo_storage_location a
          (0 + w1 + w2 + w3 + w4 + w5 + w6, ((((([] @ r1) @ r2) @ r3) @ r4) @ r5) @ r6)
        = Some (0 + w1 + w2 + w3 + w4 + w5 + w6 + w7,
                (((((([] @ r1) @ r2) @ r3) @ r4) @ r5) @ r6) @ r7)"
      "map code_points r7 = c7"
    unfolding wc using expo_steps_exact(7) by blast
  have pts: "spec_exposure_points a = 0 + w1 + w2 + w3 + w4 + w5 + w6 + w7"
    by (simp only: spec_exposure_points_def wc add_0)
  have cds: "spec_exposure_codes a = c1 @ c2 @ c3 @ c4 @ c5 @ c6 @ c7"
    by (simp only: spec_exposure_codes_def wc)
  have "calculate_exposure_score a =
      Some (min (spec_exposure_points a) 25, (((((([] @ r1) @ r2) @ r3) @ r4) @ r5) @ r6) @ r7)"
    by (simp only: calculate_exposure_score_def 1 2 3 4 5 6 7 pts Option.bind.bind_lunit prod.case)
  moreover have "map code_points ((((((([] @ r1) @ r2) @ r3) @ r4) @ r5) @ r6) @ r7)
      = spec_exposure_codes a"
    by (simp only: 1 2 3 4 5 6 7 cds map_append append_Nil append_assoc)
  ultimately show ?thesis by blast
qed

text \<open>On the default answer set (every field unknown) the score is 20 and the only
  exposure code is \<open>EXPO-SUBP\<close> with 3 points.\<close>

theorem exposure_score_spec_witness:
  "map_option fst (calculate_exposure_score default_answers) = Some 20
   \<and> map_option (map code_points \<circ> snd) (calculate_exposure_score default_answers)
       = Some [(''EXPO-SUBP'', 3)]"
  using exposure_score_spec [of default_answers]
  by (auto simp add: default_answers_def spec_exposure_points_def spec_exposure_codes_def)

section \<open>Vendor posture, field by field\<close>

lemma post_steps_exact:
  "\<exists>r'. post_retention_policy_stated a (s, rs) =
      Some (s + (if retention_policy_stated a = ''yes'' then 0 else 6), rs @ r')
    \<and> map code_points r' = (if retention_policy_stated a = ''yes'' then [] else [(''POST-RETUNK'', 6)])"
  "\<exists>r'. post_deletion_process a (s, rs) =
      Some (s + (if deletion_process a = ''no'' then 6
                 else if deletion_process a = ''unknown'' then 5
                 else if deletion_process a = ''support_ticket'' then 3
                 else 0), rs @ r')
    \<and> map code_points r' =
       (if deletion_process a = ''no'' then [(''POST-NODEL'', 6)]
        else if deletion_process a = ''unknown'' then [(''POST-DELUNK'', 5)]
        else if deletion_process a = ''support_ticket'' then [(''POST-DELUNK'', 3)]
        else [])"
  by (simp_all add: post_step_defs lookup_defs code_points_def)

text \<open>Claim C6. The vendor-posture score is the sum, clamped to at most 15, of 6 with
  code \<open>POST-RETUNK\<close> when the retention answer is anything but yes, and of the deletion
  weight: no 6 with \<open>POST-NODEL\<close>, unknown 5 with \<open>POST-DELUNK\<close>, support ticket 3 with the
  same \<open>POST-DELUNK\<close>, anything else (self-serve) 0 with no code.\<close>

theorem posture_score_spec:
  "\<exists>rs. calculate_posture_score a = Some (min (spec_posture_points a) 15, rs)
        \<and> map code_points rs = spec_posture_codes a"
proof -
  define w1 c1 where "w1 = (if retention_policy_stated a = ''yes'' then 0 else (6::int))"
    and "c1 = (if retention_policy_stated a = ''yes'' then [] else [(''POST-RETUNK'', 6::int)])"
  define w2 c2 where "w2 = (if deletion_process a = ''no'' then 6
                 else if deletion_process a = ''unknown'' then 5
                 else if deletion_process a = ''support_ticket'' then 3
                 else (0::int))"
    and "c2 = (if deletion_process a = ''no'' then [(''POST-NODEL'', 6::int)]
        else if deletion_process a = ''unknown'' then [(''POST-DELUNK'', 5)]
        else if deletion_process a = ''support_ticket'' then [(''POST-DELUNK'', 3)]
        else [])"
  note wc = w1_def c1_def w2_def c2_def
  obtain r1 where 1: "post_retention_policy_stated a (0, []) = Some (0 + w1, [] @ r1)"
      "map code_points r1 = c1"
    unfolding wc using post_steps_exact(1) by blast
  obtain r2 where 2: "post_deletion_process a (0 + w1, [] @ r1) = Some (0 + w1 + w2, ([] @ r1) @ r2)"
      "map code_points r2 = c2"
    unfolding wc using post_steps_exact(2) by blast
  have pts: "spec_posture_points a = 0 + w1 + w2"
    by (simp only: spec_posture_points_def wc add_0)
  have cds: "spec_posture_codes a = c1 @ c2"
    by (simp only: spec_posture_codes_def wc)
  have "calculate_posture_score a = Some (min (spec_posture_points a) 15, ([] @ r1) @ r2)"
    by (simp only: calculate_posture_score_def 1 2 pts Option.bind.bind_lunit prod.case)
  moreover have "map code_points (([] @ r1) @ r2) = spec_posture_codes a"
    by (simp only: 1 2 cds map_append append_Nil append_assoc)
  ultimately show ?thesis by blast
qed

text \<open>Retention unknown and deletion by support ticket: 9 points, codes \<open>POST-RETUNK\<close>
  and \<open>POST-DELUNK\<close> with 3 points.\<close>

theorem posture_score_spec_witness:
  "map_option fst (calculate_posture_score (default_answers\<lparr>deletion_process := ''support_ticket''\<rparr>))
     = Some 9
   \<and> map_option (map code_points \<circ> snd)
        (calculate_posture_score (default_answers\<lparr>deletion_process := ''support_ticket''\<rparr>))
       = Some [(''POST-RETUNK'', 6), (''POST-DELUNK'', 3)]"
  using posture_score_spec [of "default_answers\<lparr>deletion_process := ''support_ticket''\<rparr>"]
  by (auto simp add: default_answers_def spec_posture_points_def spec_posture_codes_def)

section \<open>Sensitivity, entry by entry\<close>

lemma dict_get_points: "dict_get DATA_TYPE_POINTS k 0 = spec_data_type_points k"
  by (simp add: dict_get_def DATA_TYPE_POINTS_def spec_data_type_points_def)

lemma sens_body_exact:
  "\<exists>r'. sens_body k (s, rs) = Some (s + spec_data_type_points k, rs @ r')
        \<and> map code_points r' = spec_sens_reasons k"
  by (simp add: sens_body_def dict_get_points Let_def lookup_defs code_points_def
      spec_sens_reasons_def spec_sens_code_def)

lemma sens_loop_exact:
  "\<exists>r'. sens_loop ks (s, rs) = Some (s + sum_list (map spec_data_type_points ks), rs @ r')
        \<and> map code_points r' = concat (map spec_sens_reasons ks)"
proof (induction ks arbitrary: s rs)
  case Nil
  then show ?case by simp
next
  case (Cons k ks)
  obtain r1 where 1: "sens_body k (s, rs) = Some (s + spec_data_type_points k, rs @ r1)"
    and c1: "map code_points r1 = spec_sens_reasons k"
    using sens_body_exact by blast
  obtain r2 where 2: "sens_loop ks (s + spec_data_type_points k, rs @ r1)
      = Some (s + spec_data_type_points k + sum_list (map spec_data_type_points ks), (rs @ r1) @ r2)"
    and c2: "map code_points r2 = concat (map spec_sens_reasons ks)"
    using Cons.IH by blast
  have "sens_loop (k # ks) (s, rs)
      = Some (s + sum_list (map spec_data_type_points (k # ks)), rs @ (r1 @ r2))"
    by (simp add: 1 2 add.assoc)
  moreover have "map code_points (r1 @ r2) = concat (map spec_sens_reasons (k # ks))"
    by (simp add: c1 c2)
  ultimately show ?case by blast
qed


text \<open>A reason-coded category is recognised by its code and points: the two discipline
  keys share \<open>SENS-DISC\<close> but differ in points.\<close>

lemma spec_sens_reasons_inj:
  assumes "spec_sens_code k = Some c"
    and "(c, spec_data_type_points k) \<in> set (spec_sens_reasons k')"
  shows "k' = k"
  using assms
  by (simp add: spec_sens_reasons_def spec_sens_code_def spec_data_type_points_def
      split: if_splits)

lemma count_other_category:
  assumes "spec_sens_code k = Some c" and "k \<notin> set ks"
  shows "count_list (concat (map spec_sens_reasons ks)) (c, spec_data_type_points k) = 0"
  using assms(2)
proof (induction ks)
  case Nil
  then show ?case by simp
next
  case (Cons k' ks)
  then have "k' \<noteq> k" by auto
  with spec_sens_reasons_inj [OF assms(1)]
  have "(c, spec_data_type_points k) \<notin> set (spec_sens_reasons k')" by blast
  with Cons show ?case by simp
qed

lemma count_own_category:
  "spec_sens_code k = Some c \<Longrightarrow>
   count_list (spec_sens_reasons k) (c, spec_data_type_points k) = 1"
  by (simp add: spec_sens_reasons_def)

lemma one_reason_per_category:
  assumes "spec_sens_code k = Some c" and "distinct ks" and "k \<in> set ks"
  shows "count_list (concat (map spec_sens_reasons ks)) (c, spec_data_type_points k) = 1"
  using assms(2,3)
proof (induction ks)
  case Nil
  then show ?case by simp
next
  case (Cons k' ks)
  show ?case
  proof (cases "k' = k")
    case True
    with Cons.prems have "k \<notin> set ks" by simp
    with True count_other_category [OF assms(1)] count_own_category [OF assms(1)]
    show ?thesis by simp
  next
    case False
    with spec_sens_reasons_inj [OF assms(1)]
    have "(c, spec_data_type_points k) \<notin> set (spec_sens_reasons k')" by blast
    with False Cons show ?thesis by simp
  qed
qed

text \<open>Claim C4, as amended. With \<open>data_types_unknown\<close> false the sensitivity score is the
  sum of the table values of the entries of \<open>data_types\<close> (keys outside the table count 0),
  clamped to at most 30. Each entry of a reason-coded category appends one reason code,
  in list order and once per occurrence; \<open>discipline\<close> and \<open>attendance_discipline\<close> both
  give \<open>SENS-DISC\<close>; the low-sensitivity categories, staff notes and academic records
  give none. When the list has no repeated entry, every reason-coded category in it has
  exactly one reason code.\<close>

theorem sensitivity_score_spec:
  "\<not> data_types_unknown a \<Longrightarrow>
   \<exists>rs. calculate_sensitivity_score a
          = Some (min (sum_list (map spec_data_type_points (data_types a))) 30, rs)
      \<and> map code_points rs = concat (map spec_sens_reasons (data_types a))
      \<and> (distinct (data_types a) \<longrightarrow>
           (\<forall>k\<in>set (data_types a). \<forall>c. spec_sens_code k = Some c \<longrightarrow>
              count_list (map code_points rs) (c, spec_data_type_points k) = 1))"
proof -
  assume u: "\<not> data_types_unknown a"
  obtain rs where 1: "sens_loop (data_types a) (0, [])
      = Some (0 + sum_list (map spec_data_type_points (data_types a)), [] @ rs)"
    and 2: "map code_points rs = concat (map spec_sens_reasons (data_types a))"
    using sens_loop_exact by blast
  have "calculate_sensitivity_score a
      = Some (min (sum_list (map spec_data_type_points (data_types a))) 30, rs)"
    using u by (simp add: calculate_sensitivity_score_def 1)
  with 2 one_reason_per_category show ?thesis by auto
qed

text \<open>A list without repetition, holding both discipline keys, a low-sensitivity key
  and a key outside the table.\<close>

theorem sensitivity_score_spec_witness:
  "\<not> data_types_unknown mixed_answers \<and> distinct (data_types mixed_answers)
   \<and> map_option fst (calculate_sensitivity_score mixed_answers) = Some 19
   \<and> map_option (map code_points \<circ> snd) (calculate_sensitivity_score mixed_answers)
       = Some [(''SENS-IEP'', 8), (''SENS-DISC'', 6), (''SENS-DISC'', 3)]"
proof -
  have h: "\<not> data_types_unknown mixed_answers"
    by (simp add: mixed_answers_def default_answers_def)
  have d: "data_types mixed_answers
      = [''iep_504'', ''discipline'', ''attendance_discipline'', ''directory_info'', ''genome'']"
    by (simp add: mixed_answers_def default_answers_def)
  from sensitivity_score_spec [OF h] obtain rs
    where 1: "calculate_sensitivity_score mixed_answers
        = Some (min (sum_list (map spec_data_type_points (data_types mixed_answers))) 30, rs)"
      and 2: "map code_points rs = concat (map spec_sens_reasons (data_types mixed_answers))"
    by blast
  have 3: "sum_list (map spec_data_type_points (data_types mixed_answers)) = 19"
    by (simp add: d spec_data_type_points_def)
  have 4: "concat (map spec_sens_reasons (data_types mixed_answers))
      = [(''SENS-IEP'', 8), (''SENS-DISC'', 6), (''SENS-DISC'', 3)]"
    by (simp add: d spec_sens_reasons_def spec_sens_code_def spec_data_type_points_def)
  have 5: "distinct (data_types mixed_answers)"
    by (simp add: d)
  show ?thesis
    using h 5 by (simp add: 1 2 3 4)
qed

text \<open>Claim C4 as stated fails on a list that repeats an entry: \<open>iep_504\<close> listed twice
  gives two \<open>SENS-IEP\<close> reason codes (and 16 points), one per occurrence.\<close>

theorem repeated_data_type_counterexample:
  "\<not> data_types_unknown repeated_answers
   \<and> data_types repeated_answers = [''iep_504'', ''iep_504'']
   \<and> map_option fst (calculate_sensitivity_score repeated_answers) = Some 16
   \<and> map_option (map code_points \<circ> snd) (calculate_sensitivity_score repeated_answers)
       = Some [(''SENS-IEP'', 8), (''SENS-IEP'', 8)]"
  by (simp add: repeated_answers_def default_answers_def calculate_sensitivity_score_def
      sens_body_def dict_get_def DATA_TYPE_POINTS_def lookup_defs code_points_def)


section \<open>Values outside the vocabularies\<close>

lemma data_type_keys:
  "map fst DATA_TYPE_POINTS =
    [''iep_504'', ''health'', ''behavioral_sel'', ''biometrics'', ''precise_location'',
     ''discipline'', ''photos_video_audio'', ''staff_notes'', ''academic_records'',
     ''attendance_discipline'', ''directory_info'', ''contact_info'', ''auth_identifiers'',
     ''device_identifiers'']"
  by (simp add: DATA_TYPE_POINTS_def)

lemma sens_body_unrecognized:
  assumes "k \<notin> set (map fst DATA_TYPE_POINTS)"
  shows "sens_body k st = Some st"
proof -
  from assms have "map_of DATA_TYPE_POINTS k = None"
    by (simp only: map_of_eq_None_iff set_map not_False_eq_True)
  then have "dict_get DATA_TYPE_POINTS k 0 = 0"
    by (simp add: dict_get_def)
  moreover from assms have "k \<noteq> ''iep_504''" "k \<noteq> ''health''" "k \<noteq> ''behavioral_sel''"
    "k \<noteq> ''biometrics''" "k \<noteq> ''precise_location''" "k \<noteq> ''discipline''"
    "k \<noteq> ''attendance_discipline''" "k \<noteq> ''photos_video_audio''"
    unfolding data_type_keys by auto
  ultimately show ?thesis
    by (cases st) (simp add: sens_body_def)
qed

lemma risk_score_returns: "\<exists>r. calculate_risk_score a = Some r"
proof -
  obtain s1 r1 where 1: "calculate_sensitivity_score a = Some (s1, r1)"
    using sensitivity_ok [of a] by (rule scorer_okE)
  obtain s2 r2 where 2: "calculate_exposure_score a = Some (s2, r2)"
    using exposure_ok [of a] by (rule scorer_okE)
  obtain s3 r3 where 3: "calculate_security_score a = Some (s3, r3)"
    using security_ok [of a] by (rule scorer_okE)
  obtain s4 r4 where 4: "calculate_posture_score a = Some (s4, r4)"
    using posture_ok [of a] by (rule scorer_okE)
  obtain s5 r5 where 5: "calculate_integration_score a = Some (s5, r5)"
    using integration_ok [of a] by (rule scorer_okE)
  show ?thesis
    using calculate_risk_score_unfold [OF 1 2 3 4 5] by blast
qed

lemma fall_through_blocks:
  "third_party_sharing a \<notin> {''yes'', ''unknown''} \<Longrightarrow> expo_third_party_sharing a st = Some st"
  "used_for_advertising a \<notin> {''yes'', ''unknown''} \<Longrightarrow> expo_used_for_advertising a st = Some st"
  "used_for_ai_training a \<notin> {''yes'', ''unknown''} \<Longrightarrow> expo_used_for_ai_training a st = Some st"
  "data_sold a \<notin> {''yes'', ''unknown''} \<Longrightarrow> expo_data_sold a st = Some st"
  "subprocessors_disclosed a \<notin> {''no'', ''unknown''} \<Longrightarrow> expo_subprocessors_disclosed a st = Some st"
  "data_region a \<notin> {''global'', ''unknown''} \<Longrightarrow> expo_data_region a st = Some st"
  "storage_location a \<notin> {''both'', ''unknown''} \<Longrightarrow> expo_storage_location a st = Some st"
  "sso_supported a \<notin> {''none'', ''unknown''} \<Longrightarrow> sec_sso_supported a st = Some st"
  "deletion_process a \<notin> {''no'', ''unknown'', ''support_ticket''} \<Longrightarrow> post_deletion_process a st = Some st"
  "integration_method a \<notin> {''api_key'', ''unknown''} \<Longrightarrow> int_integration_method a st = Some st"
  "integration_frequency a \<notin> {''realtime'', ''unknown''} \<Longrightarrow> int_integration_frequency a st = Some st"
  "sis_writeback a \<notin> {''yes'', ''unknown''} \<Longrightarrow> int_sis_writeback a st = Some st"
  by (cases st; simp add: expo_step_defs sec_step_defs post_step_defs int_step_defs)+

lemma penalised_blocks:
  "mfa_available a \<noteq> ''yes'' \<Longrightarrow>
     \<exists>r. sec_mfa_available a (s, rs) = Some (s + 4, rs @ [r]) \<and> code_points r = (''CTRL-NOMFA'', 4)"
  "rbac_available a \<noteq> ''yes'' \<Longrightarrow>
     \<exists>r. sec_rbac_available a (s, rs) = Some (s + 3, rs @ [r]) \<and> code_points r = (''CTRL-NORBAC'', 3)"
  "encryption_transit a \<noteq> ''yes'' \<Longrightarrow>
     \<exists>r. sec_encryption_transit a (s, rs) = Some (s + 3, rs @ [r]) \<and> code_points r = (''CTRL-NOTRANS'', 3)"
  "encryption_rest a \<noteq> ''yes'' \<Longrightarrow>
     \<exists>r. sec_encryption_rest a (s, rs) = Some (s + 3, rs @ [r]) \<and> code_points r = (''CTRL-NOREST'', 3)"
  "audit_logs_available a \<noteq> ''yes'' \<Longrightarrow>
     \<exists>r. sec_audit_logs_available a (s, rs) = Some (s + 3, rs @ [r]) \<and> code_points r = (''CTRL-NOAUDIT'', 3)"
  "retention_policy_stated a \<noteq> ''yes'' \<Longrightarrow>
     \<exists>r. post_retention_policy_stated a (s, rs) = Some (s + 6, rs @ [r]) \<and> code_points r = (''POST-RETUNK'', 6)"
  by (simp_all add: sec_step_defs post_step_defs lookup_defs code_points_def)

lemma integration_types_block:
  "3 \<le> length (integration_types a) \<Longrightarrow>
     \<exists>r. int_integration_types a (s, rs) = Some (s + 2, rs @ [r]) \<and> code_points r = (''INT-MULTI'', 2)"
  "length (integration_types a) < 3 \<Longrightarrow> int_integration_types a st = Some st"
  by (cases st; simp add: int_integration_types_def lookup_defs code_points_def)+

text \<open>Claim C8, as amended. The combined scoring returns a result for every answer set
  of the right field types. A \<open>data_types\<close> key outside the table, and a value that is
  none of the penalised literals in the fields compared with explicit literals (the seven
  exposure fields, \<open>sso_supported\<close>, \<open>deletion_process\<close> and the three integration
  fields), leaves the running score and reasons unchanged. In the six fields compared
  with \<open>!= "yes"\<close> (MFA, RBAC, the two encryption fields, audit logs and the retention
  policy) every value other than yes, in or out of the vocabulary, adds the field's
  penalty and its reason code. The entries of \<open>integration_types\<close> are only counted:
  three or more entries, known integration types or not, add 2 points with
  \<open>INT-MULTI\<close>, and fewer than three add nothing.\<close>

theorem unrecognized_values:
  "(\<exists>r. calculate_risk_score a = Some r)
   \<and> (k \<notin> set (map fst DATA_TYPE_POINTS) \<longrightarrow> sens_body k st = Some st)
   \<and> (third_party_sharing a \<notin> {''yes'', ''unknown''} \<longrightarrow> expo_third_party_sharing a st = Some st)
   \<and> (used_for_advertising a \<notin> {''yes'', ''unknown''} \<longrightarrow> expo_used_for_advertising a st = Some st)
   \<and> (used_for_ai_training a \<notin> {''yes'', ''unknown''} \<longrightarrow> expo_used_for_ai_training a st = Some st)
   \<and> (data_sold a \<notin> {''yes'', ''unknown''} \<longrightarrow> expo_data_sold a st = Some st)
   \<and> (subprocessors_disclosed a \<notin> {''no'', ''unknown''} \<longrightarrow> expo_subprocessors_disclosed a st = Some st)
   \<and> (data_region a \<notin> {''global'', ''unknown''} \<longrightarrow> expo_data_region a st = Some st)
   \<and> (storage_location a \<notin> {''both'', ''unknown''} \<longrightarrow> expo_storage_location a st = Some st)
   \<and> (sso_supported a \<notin> {''none'', ''unknown''} \<longrightarrow> sec_sso_supported a st = Some st)
   \<and> (deletion_process a \<notin> {''no'', ''unknown'', ''support_ticket''} \<longrightarrow> post_deletion_process a st = Some st)
   \<and> (integration_method a \<notin> {''api_key'', ''unknown''} \<longrightarrow> int_integration_method a st = Some st)
   \<and> (integration_frequency a \<notin> {''realtime'', ''unknown''} \<longrightarrow> int_integration_frequency a st = Some st)
   \<and> (sis_writeback a \<notin> {''yes'', ''unknown''} \<longrightarrow> int_sis_writeback a st = Some st)
   \<and> (mfa_available a \<noteq> ''yes'' \<longrightarrow>
        (\<exists>r. sec_mfa_available a (s, rs) = Some (s + 4, rs @ [r]) \<and> code_points r = (''CTRL-NOMFA'', 4)))
   \<and> (rbac_available a \<noteq> ''yes'' \<longrightarrow>
        (\<exists>r. sec_rbac_available a (s, rs) = Some (s + 3, rs @ [r]) \<and> code_points r = (''CTRL-NORBAC'', 3)))
   \<and> (encryption_transit a \<noteq> ''yes'' \<longrightarrow>
        (\<exists>r. sec_encryption_transit a (s, rs) = Some (s + 3, rs @ [r]) \<and> code_points r = (''CTRL-NOTRANS'', 3)))
   \<and> (encryption_rest a \<noteq> ''yes'' \<longrightarrow>
        (\<exists>r. sec_encryption_rest a (s, rs) = Some (s + 3, rs @ [r]) \<and> code_points r = (''CTRL-NOREST'', 3)))
   \<and> (audit_logs_available a \<noteq> ''yes'' \<longrightarrow>
        (\<exists>r. sec_audit_logs_available a (s, rs) = Some (s + 3, rs @ [r]) \<and> code_points r = (''CTRL-NOAUDIT'', 3)))
   \<and> (retention_policy_stated a \<noteq> ''yes'' \<longrightarrow>
        (\<exists>r. post_retention_policy_stated a (s, rs) = Some (s + 6, rs @ [r]) \<and> code_points r = (''POST-RETUNK'', 6)))
   \<and> (3 \<le> length (integration_types a) \<longrightarrow>
        (\<exists>r. int_integration_types a (s, rs) = Some (s + 2, rs @ [r]) \<and> code_points r = (''INT-MULTI'', 2)))
   \<and> (length (integration_types a) < 3 \<longrightarrow> int_integration_types a st = Some st)"
  by (intro conjI impI risk_score_returns sens_body_unrecognized fall_through_blocks
      penalised_blocks integration_types_block)

text \<open>The answer set in which every value is outside its vocabulary, with three
  integration types, satisfies every hypothesis but the last, and with one integration
  type the last. Its total is 24: the six penalties of the \<open>!= "yes"\<close> fields and the 2
  points for three integration types.\<close>

theorem unrecognized_values_witness:
  "(map_option total_score (calculate_risk_score odd_answers) = Some 24
    \<and> map_option (map code_points \<circ> reason_codes) (calculate_risk_score odd_answers)
        = Some [(''POST-RETUNK'', 6), (''CTRL-NOMFA'', 4), (''CTRL-NORBAC'', 3),
                (''CTRL-NOTRANS'', 3), (''CTRL-NOREST'', 3), (''CTRL-NOAUDIT'', 3),
                (''INT-MULTI'', 2)])
   \<and> ((\<exists>r. calculate_risk_score odd_answers = Some r)
   \<and> sens_body ''genome'' (0, []) = Some (0, [])
   \<and> expo_third_party_sharing odd_answers (0, []) = Some (0, [])
   \<and> expo_used_for_advertising odd_answers (0, []) = Some (0, [])
   \<and> expo_used_for_ai_training odd_answers (0, []) = Some (0, [])
   \<and> expo_data_sold odd_answers (0, []) = Some (0, [])
   \<and> expo_subprocessors_disclosed odd_answers (0, []) = Some (0, [])
   \<and> expo_data_region odd_answers (0, []) = Some (0, [])
   \<and> expo_storage_location odd_answers (0, []) = Some (0, [])
   \<and> sec_sso_supported odd_answers (0, []) = Some (0, [])
   \<and> post_deletion_process odd_answers (0, []) = Some (0, [])
   \<and> int_integration_method odd_answers (0, []) = Some (0, [])
   \<and> int_integration_frequency odd_answers (0, []) = Some (0, [])
   \<and> int_sis_writeback odd_answers (0, []) = Some (0, [])
   \<and> (\<exists>r. sec_mfa_available odd_answers (0, []) = Some (4, [r])
          \<and> code_points r = (''CTRL-NOMFA'', 4))
   \<and> (\<exists>r. sec_rbac_available odd_answers (0, []) = Some (3, [r])
          \<and> code_points r = (''CTRL-NORBAC'', 3))
   \<and> (\<exists>r. sec_encryption_transit odd_answers (0, []) = Some (3, [r])
          \<and> code_points r = (''CTRL-NOTRANS'', 3))
   \<and> (\<exists>r. sec_encryption_rest odd_answers (0, []) = Some (3, [r])
          \<and> code_points r = (''CTRL-NOREST'', 3))
   \<and> (\<exists>r. sec_audit_logs_available odd_answers (0, []) = Some (3, [r])
          \<and> code_points r = (''CTRL-NOAUDIT'', 3))
   \<and> (\<exists>r. post_retention_policy_stated odd_answers (0, []) = Some (6, [r])
          \<and> code_points r = (''POST-RETUNK'', 6))
   \<and> (\<exists>r. int_integration_types odd_answers (0, []) = Some (2, [r])
          \<and> code_points r = (''INT-MULTI'', 2))
   \<and> int_integration_types odd_answers_one_integration (0, []) = Some (0, []))"
  (is "?T \<and> ?A")
proof
  show ?T
    by (simp add: odd_answers_def eval_defs code_points_def)
  show ?A
    using unrecognized_values
      [where a = odd_answers and k = "''genome''" and st = "(0, [])" and s = 0 and rs = "[]"]
      unrecognized_values
      [where a = odd_answers_one_integration and k = "''genome''" and st = "(0, [])"
         and s = 0 and rs = "[]"]
    by (simp add: odd_answers_one_integration_def odd_answers_def data_type_keys)
qed

text \<open>Claim C8 as stated fails. In the low-risk fixture with the integration types
  \<open>sis\<close> and \<open>lms\<close> the total is 3 with no reason code; a third entry that is no known
  integration type raises it to 5 and emits \<open>INT-MULTI\<close>. With the six controls compared
  with \<open>!= "yes"\<close> answered outside their vocabulary the total is 25, each of the six
  with its penalty and reason code.\<close>

theorem unrecognized_penalised_counterexample:
  "integration_types odd_integration_answers = [''sis'', ''lms'', ''bogus'']
   \<and> map_option total_score (calculate_risk_score two_integrations_answers) = Some 3
   \<and> map_option (map code_points \<circ> reason_codes) (calculate_risk_score two_integrations_answers)
       = Some []
   \<and> map_option total_score (calculate_risk_score odd_integration_answers) = Some 5
   \<and> map_option (map code_points \<circ> reason_codes) (calculate_risk_score odd_integration_answers)
       = Some [(''INT-MULTI'', 2)]
   \<and> map_option total_score (calculate_risk_score odd_controls_answers) = Some 25
   \<and> map_option (map code_points \<circ> reason_codes) (calculate_risk_score odd_controls_answers)
       = Some [(''POST-RETUNK'', 6), (''CTRL-NOMFA'', 4), (''CTRL-NORBAC'', 3),
               (''CTRL-NOTRANS'', 3), (''CTRL-NOREST'', 3), (''CTRL-NOAUDIT'', 3)]"
  by (simp add: two_integrations_answers_def odd_integration_answers_def
      odd_controls_answers_def low_risk_answers_def eval_defs code_points_def)

end
